theory Spec2Isabelle
  imports Complex_Main
begin

section \<open>Database schema (001_initial_schema.sql)\<close>

text \<open>
  Rows are records, tables are lists of rows (credit_transactions, processed_images,
  zip_bundles, notifications) or maps from the primary key (profiles, processing_jobs).
  The columns kept are those that the properties below depend on: the wallet of a
  profile, the counters, status and timestamps of a job, the state of an image, the
  bundle of a job. Columns of SQL type INT hold values of the 32-bit range: an SQL
  expression that leaves the range raises "integer out of range", which aborts the
  statement (and the surrounding function) without any effect. Statements run one at a
  time: there are no concurrent transactions in this model.
\<close>

type_synonym uuid = string
type_synonym timestamp = nat

datatype sql_error = integer_out_of_range | not_null_violation | check_violation

definition int4 :: "int \<Rightarrow> bool" where
  "int4 x \<longleftrightarrow> - 2147483648 \<le> x \<and> x \<le> 2147483647"

datatype job_status = queued | processing | completed | failed | cancelled

record profile =
  monthly_credits :: int
  topup_credits :: int
  credits_used_cycle :: int

record credit_transaction =
  tx_user_id :: uuid
  amount :: int
  balance_after :: int
  source :: string
  reference_id :: "string option"

record processing_job =
  job_user_id :: uuid
  vibe :: string
  ratio :: string
  total_images :: int
  completed_count :: int
  failed_count :: int
  job_status :: job_status
  credits_charged :: int
  started_at :: "timestamp option"
  completed_at :: "timestamp option"
  job_error_message :: "string option"

record processed_image =
  image_id :: uuid
  job_id :: uuid
  image_user_id :: uuid
  original_path :: string
  output_path :: "string option"
  original_filename :: string
  file_size_bytes :: "nat option"
  image_status :: job_status
  position :: int
  progress_pct :: int
  output_signed_url :: "string option"
  output_signed_url_exp :: "timestamp option"
  image_error_message :: "string option"

record zip_bundle =
  zb_job_id :: uuid
  zb_user_id :: uuid
  storage_path :: string
  signed_url :: "string option"
  signed_url_exp :: "timestamp option"
  zb_file_size_bytes :: nat
  image_count :: int

record notification =
  n_user_id :: uuid
  n_type :: string
  n_job_id :: "uuid option"

record db =
  profiles :: "uuid \<rightharpoonup> profile"
  credit_transactions :: "credit_transaction list"
  processing_jobs :: "uuid \<rightharpoonup> processing_job"
  processed_images :: "processed_image list"
  zip_bundles :: "zip_bundle list"
  notifications :: "notification list"

section \<open>Credit helpers (001_initial_schema.sql, HELPER FUNCTIONS)\<close>

text \<open>get_available_credits: monthly_credits + topup_credits of the user's row.\<close>

definition get_available_credits :: "db \<Rightarrow> uuid \<Rightarrow> int option" where
  "get_available_credits d p_user_id =
     (case profiles d p_user_id of
        None \<Rightarrow> None
      | Some p \<Rightarrow> Some (monthly_credits p + topup_credits p))"

text \<open>
  deduct_credits(p_user_id, p_amount): monthly first, then top-up. \<open>Inl\<close> is a raised
  SQL error: the function's transaction is rolled back. When the user has no row,
  v_monthly and v_topup stay NULL, the IF on NULL is not taken, the UPDATE matches no row
  and the INSERT fails on balance_after NOT NULL.
\<close>

definition deduct_credits :: "db \<Rightarrow> uuid \<Rightarrow> int \<Rightarrow> sql_error + (bool \<times> db)" where
  "deduct_credits d p_user_id p_amount =
     (case profiles d p_user_id of
        None \<Rightarrow>
          Inl (if int4 (- p_amount) then not_null_violation else integer_out_of_range)
      | Some p \<Rightarrow>
          let v_monthly = monthly_credits p;
              v_topup = topup_credits p
          in if \<not> int4 (v_monthly + v_topup) then Inl integer_out_of_range
             else if v_monthly + v_topup < p_amount then Inr (False, d)
             else
               let v_deduct_monthly = min p_amount v_monthly;
                   v_deduct_topup = p_amount - v_deduct_monthly;
                   v_balance_after =
                     (v_monthly - v_deduct_monthly) + (v_topup - v_deduct_topup)
               in if \<not> (int4 v_deduct_topup
                        \<and> int4 (monthly_credits p - v_deduct_monthly)
                        \<and> int4 (topup_credits p - v_deduct_topup)
                        \<and> int4 (credits_used_cycle p + p_amount)
                        \<and> int4 (v_monthly - v_deduct_monthly)
                        \<and> int4 (v_topup - v_deduct_topup)
                        \<and> int4 v_balance_after
                        \<and> int4 (- p_amount))
                  then Inl integer_out_of_range
                  else Inr (True,
                    d\<lparr>profiles := (profiles d)(p_user_id \<mapsto>
                         p\<lparr>monthly_credits := monthly_credits p - v_deduct_monthly,
                           topup_credits := topup_credits p - v_deduct_topup,
                           credits_used_cycle := credits_used_cycle p + p_amount\<rparr>),
                       credit_transactions := credit_transactions d @
                         [\<lparr>tx_user_id = p_user_id, amount = - p_amount,
                           balance_after = v_balance_after, source = ''job_charge'',
                           reference_id = None\<rparr>]\<rparr>))"

text \<open>
  admin.rpc('deduct_credits', ...) as the routes see it: \<open>data\<close> is the returned
  boolean, or null when the call raised (the argument is not an INT, or an SQL error);
  an error leaves the database as it was.
\<close>

definition rpc_deduct_credits :: "db \<Rightarrow> uuid \<Rightarrow> int \<Rightarrow> bool option \<times> db" where
  "rpc_deduct_credits d p_user_id p_amount =
     (if \<not> int4 p_amount then (None, d)
      else case deduct_credits d p_user_id p_amount of
             Inl e \<Rightarrow> (None, d)
           | Inr (b, d') \<Rightarrow> (Some b, d'))"

section \<open>Shared constants (types)\<close>

definition MAX_FILES :: nat where
  "MAX_FILES = 20"

definition MAX_FILE_SIZE_MB :: nat where
  "MAX_FILE_SIZE_MB = 50"

definition ACCEPTED_TYPES :: "string list" where
  "ACCEPTED_TYPES =
     [''image/jpeg'', ''image/jpg'', ''image/png'', ''image/webp'', ''image/heic'']"

text \<open>Object.keys(VIBE_PROMPTS) and ASPECT_RATIO_MAP (key, width, height; null for AUTO).\<close>

definition VIBE_KEYS :: "string list" where
  "VIBE_KEYS = [''natural_light'', ''studio_light'']"

definition ASPECT_RATIO_MAP :: "(string \<times> nat option \<times> nat option) list" where
  "ASPECT_RATIO_MAP =
     [(''AUTO'', None, None),
      (''1:1'', Some 3840, Some 3840),
      (''3:4'', Some 2880, Some 3840),
      (''4:3'', Some 3840, Some 2880),
      (''4:5'', Some 3072, Some 3840),
      (''5:4'', Some 3840, Some 3072),
      (''9:16'', Some 2160, Some 3840),
      (''16:9'', Some 3840, Some 2160),
      (''2:3'', Some 2560, Some 3840),
      (''3:2'', Some 3840, Some 2560)]"

subsection \<open>String helpers of the JavaScript runtime\<close>

text \<open>String(n) for an integer: decimal digits, with a minus sign when negative.\<close>

fun show_nat :: "nat \<Rightarrow> string" where
  "show_nat n =
     (if n < 10 then [''0123456789'' ! n]
      else show_nat (n div 10) @ [''0123456789'' ! (n mod 10)])"

declare show_nat.simps [simp del]

definition show_int :: "int \<Rightarrow> string" where
  "show_int k = (if k < 0 then CHR ''-'' # show_nat (nat (- k)) else show_nat (nat k))"

text \<open>toLowerCase, on ASCII letters (other characters are kept).\<close>

definition toLowerCase :: "string \<Rightarrow> string" where
  "toLowerCase s =
     map (\<lambda>c. let n = (of_char c :: nat)
              in if 65 \<le> n \<and> n \<le> 90 then char_of (n + 32) else c) s"

text \<open>name.split('.').pop(): the part after the last dot, the whole name without one.\<close>

definition split_pop :: "string \<Rightarrow> string" where
  "split_pop name = rev (takeWhile (\<lambda>c. c \<noteq> CHR ''.'') (rev name))"

section \<open>Batch submission: POST /api/process\<close>

record form_file =
  file_name :: string
  file_type :: string
  file_size :: nat

text \<open>
  What the route gets from outside: the authenticated user, the id that the database
  generates for the new job (None when the insert returns an error), whether the
  storage upload of the file at index i returns an error, and the ids generated for the
  image rows (by position).
\<close>

record process_env =
  auth_user :: "uuid option"
  new_job_id :: "uuid option"
  upload_error :: "nat \<Rightarrow> bool"
  new_image_id :: "nat \<Rightarrow> uuid"

text \<open>The JSON responses of the route, one constructor per NextResponse.json call.\<close>

datatype process_response =
    Unauthorized
  | Submit_between_1_and_MAX_FILES
  | Unsupported_file_type string
  | Exceeds_max_size string
  | Invalid_vibe
  | Invalid_aspect_ratio
  | Insufficient_credits int nat
  | Credit_deduction_failed
  | Failed_to_create_job
  | All_uploads_failed_Credits_refunded
  | Job_created uuid nat

fun http_status :: "process_response \<Rightarrow> nat" where
  "http_status Unauthorized = 401"
| "http_status Submit_between_1_and_MAX_FILES = 400"
| "http_status (Unsupported_file_type t) = 400"
| "http_status (Exceeds_max_size n) = 400"
| "http_status Invalid_vibe = 400"
| "http_status Invalid_aspect_ratio = 400"
| "http_status (Insufficient_credits a n) = 402"
| "http_status Credit_deduction_failed = 402"
| "http_status Failed_to_create_job = 500"
| "http_status All_uploads_failed_Credits_refunded = 500"
| "http_status (Job_created j c) = 200"

fun validate_files :: "form_file list \<Rightarrow> process_response option" where
  "validate_files [] = None"
| "validate_files (f # fs) =
     (if file_type f \<notin> set ACCEPTED_TYPES then Some (Unsupported_file_type (file_type f))
      else if file_size f > MAX_FILE_SIZE_MB * 1024 * 1024
        then Some (Exceeds_max_size (file_name f))
      else validate_files fs)"

record upload_result =
  ur_path :: string
  ur_filename :: string
  ur_error :: bool
  ur_position :: nat

definition upload_one ::
    "process_env \<Rightarrow> uuid \<Rightarrow> uuid \<Rightarrow> nat \<times> form_file \<Rightarrow> upload_result" where
  "upload_one env user_id job_id' x =
     (let i = fst x; f = snd x;
          ext = toLowerCase (split_pop (file_name f));
          path = ''uploads/'' @ user_id @ ''/'' @ job_id' @ ''/original_'' @ show_nat (i + 1)
                 @ ''.'' @ ext
      in \<lparr>ur_path = path, ur_filename = file_name f, ur_error = upload_error env i,
          ur_position = i + 1\<rparr>)"

definition image_row ::
    "process_env \<Rightarrow> uuid \<Rightarrow> uuid \<Rightarrow> upload_result \<Rightarrow> processed_image" where
  "image_row env user_id job_id' u =
     \<lparr>image_id = new_image_id env (ur_position u), job_id = job_id', image_user_id = user_id,
      original_path = ur_path u, output_path = None, original_filename = ur_filename u,
      file_size_bytes = None, image_status = queued, position = int (ur_position u),
      progress_pct = 0, output_signed_url = None, output_signed_url_exp = None,
      image_error_message = None\<rparr>"

definition update_job :: "db \<Rightarrow> uuid \<Rightarrow> (processing_job \<Rightarrow> processing_job) \<Rightarrow> db" where
  "update_job d jid f =
     (case processing_jobs d jid of
        None \<Rightarrow> d
      | Some j \<Rightarrow> d\<lparr>processing_jobs := (processing_jobs d)(jid \<mapsto> f j)\<rparr>)"

text \<open>
  Further statements that the routes issue through the database client. None of their
  returned errors is looked at: an UPDATE that matches no row, and an INSERT whose user
  does not exist (foreign key) or whose values are outside INT, change nothing.
\<close>

definition update_profile :: "db \<Rightarrow> uuid \<Rightarrow> (profile \<Rightarrow> profile) \<Rightarrow> db" where
  "update_profile d u f =
     (case profiles d u of
        None \<Rightarrow> d
      | Some p \<Rightarrow> d\<lparr>profiles := (profiles d)(u \<mapsto> f p)\<rparr>)"

definition insert_credit_transaction :: "db \<Rightarrow> credit_transaction \<Rightarrow> db" where
  "insert_credit_transaction d r =
     (if tx_user_id r \<in> dom (profiles d) \<and> int4 (amount r) \<and> int4 (balance_after r)
      then d\<lparr>credit_transactions := credit_transactions d @ [r]\<rparr>
      else d)"

definition insert_notification :: "db \<Rightarrow> notification \<Rightarrow> db" where
  "insert_notification d n =
     (if n_user_id n \<in> dom (profiles d)
      then d\<lparr>notifications := notifications d @ [n]\<rparr>
      else d)"

text \<open>
  The POST handler, step by step as in the source. The worker dispatch of step 9 is a
  fire-and-forget request and changes nothing here; the worker is modelled on its own.
\<close>

definition process_POST ::
    "process_env \<Rightarrow> form_file list \<Rightarrow> string option \<Rightarrow> string option \<Rightarrow> db
       \<Rightarrow> process_response \<times> db" where
  "process_POST env files form_vibe form_ratio d =
     (case auth_user env of
        None \<Rightarrow> (Unauthorized, d)
      | Some user_id \<Rightarrow>
        (let vibe' = (case form_vibe of None \<Rightarrow> ''natural_light'' | Some v \<Rightarrow> v);
             ratio' = (case form_ratio of None \<Rightarrow> ''AUTO'' | Some r \<Rightarrow> r);
             available = (case profiles d user_id of
                            None \<Rightarrow> 0
                          | Some p \<Rightarrow> monthly_credits p + topup_credits p);
             deducted = fst (rpc_deduct_credits d user_id (int (length files)));
             d1 = snd (rpc_deduct_credits d user_id (int (length files)))
         in
         if files = [] \<or> length files > MAX_FILES then (Submit_between_1_and_MAX_FILES, d)
         else if validate_files files \<noteq> None then (the (validate_files files), d)
         else if vibe' \<notin> set VIBE_KEYS then (Invalid_vibe, d)
         else if ratio' \<notin> set (map fst ASPECT_RATIO_MAP) then (Invalid_aspect_ratio, d)
         else if available < int (length files)
           then (Insufficient_credits available (length files), d)
         else if deducted \<noteq> Some True then (Credit_deduction_failed, d1)
         else if new_job_id env = None \<or> the (new_job_id env) \<in> dom (processing_jobs d1)
           then (Failed_to_create_job, d1)
         else
           (let jid = the (new_job_id env);
                job = \<lparr>job_user_id = user_id, vibe = vibe', ratio = ratio',
                        total_images = int (length files), completed_count = 0,
                        failed_count = 0, job_status = queued,
                        credits_charged = int (length files), started_at = None,
                        completed_at = None, job_error_message = None\<rparr>;
                d2 = d1\<lparr>processing_jobs := (processing_jobs d1)(jid \<mapsto> job)\<rparr>;
                uploadResults = map (upload_one env user_id jid)
                                    (zip [0 ..< length files] files);
                failedUploads = filter ur_error uploadResults;
                successUploads = filter (\<lambda>r. \<not> ur_error r) uploadResults;
                d3 = d2\<lparr>processed_images := processed_images d2 @
                          map (image_row env user_id jid) successUploads\<rparr>;
                d4 = (if length failedUploads > 0
                      then update_job d3 jid
                             (\<lambda>j. j\<lparr>total_images := int (length successUploads)\<rparr>)
                      else d3)
            in
            if length failedUploads = length files
            then (All_uploads_failed_Credits_refunded,
                  update_job d2 jid (\<lambda>j. j\<lparr>job_status := failed\<rparr>))
            else (Job_created jid (length successUploads), d4))))"

section \<open>Batch status synchronisation trigger (001_initial_schema.sql)\<close>

text \<open>The trigger's test \<open>status IN ('completed','failed')\<close>.\<close>

definition terminal :: "job_status \<Rightarrow> bool" where
  "terminal s \<longleftrightarrow> s = completed \<or> s = failed"

text \<open>
  sync_job_completion(): NEW is the updated image row, \<open>now\<close> the value of NOW().
  Inside an UPDATE's SET list a bare column name is the row's value before the update;
  v_total, v_completed and v_failed were read by the SELECT at the start.
\<close>

definition sync_job_completion ::
    "timestamp \<Rightarrow> processed_image \<Rightarrow> (uuid \<rightharpoonup> processing_job)
       \<Rightarrow> sql_error + (uuid \<rightharpoonup> processing_job)" where
  "sync_job_completion now NEW jobs =
     (case jobs (job_id NEW) of
        None \<Rightarrow> Inr jobs
      | Some j \<Rightarrow>
        (let v_total = total_images j;
             v_completed = completed_count j;
             v_failed = failed_count j;
             j1 = (if image_status NEW = completed
                   then j\<lparr>completed_count := completed_count j + 1,
                          job_status := (if completed_count j + 1 + v_failed = v_total
                                         then completed else job_status j),
                          completed_at := (if completed_count j + 1 + v_failed = v_total
                                           then Some now else completed_at j)\<rparr>
                   else j);
             j2 = (if image_status NEW = failed
                   then j1\<lparr>failed_count := failed_count j1 + 1,
                           job_status := (if v_completed + failed_count j1 + 1 = v_total
                                          then completed else job_status j1),
                           completed_at := (if v_completed + failed_count j1 + 1 = v_total
                                            then Some now else completed_at j1)\<rparr>
                   else j1)
         in
         if image_status NEW = completed
            \<and> \<not> (int4 (completed_count j + 1) \<and> int4 (completed_count j + 1 + v_failed))
         then Inl integer_out_of_range
         else if image_status NEW = failed
            \<and> \<not> (int4 (failed_count j1 + 1) \<and> int4 (v_completed + failed_count j1)
                   \<and> int4 (v_completed + failed_count j1 + 1))
         then Inl integer_out_of_range
         else Inr (jobs(job_id NEW \<mapsto> j2))))"

text \<open>
  The UPDATE statements that the worker issues on one processed_images row, by their
  SET lists.
\<close>

datatype image_update =
    Set_processing
  | Set_progress int
  | Set_completed string nat "string option" timestamp
  | Set_failed string

fun apply_image_update :: "image_update \<Rightarrow> processed_image \<Rightarrow> processed_image" where
  "apply_image_update Set_processing r = r\<lparr>image_status := processing, progress_pct := 5\<rparr>"
| "apply_image_update (Set_progress v) r = r\<lparr>progress_pct := v\<rparr>"
| "apply_image_update (Set_completed path byteLength url expiry) r =
     r\<lparr>image_status := completed, progress_pct := 100, output_path := Some path,
       file_size_bytes := Some byteLength, output_signed_url := url,
       output_signed_url_exp := Some expiry\<rparr>"
| "apply_image_update (Set_failed message) r =
     r\<lparr>image_status := failed, image_error_message := Some message\<rparr>"

text \<open>Whether the SET list names the status column (the trigger is AFTER UPDATE OF status).\<close>

fun sets_status :: "image_update \<Rightarrow> bool" where
  "sets_status (Set_progress v) = False"
| "sets_status u = True"

text \<open>
  One row's update: the CHECK on progress_pct, then trg_sync_job_on_image_complete with
  its WHEN clause. An error raised by the trigger aborts the update as well.
\<close>

definition update_image_row ::
    "timestamp \<Rightarrow> image_update \<Rightarrow> processed_image \<Rightarrow> (uuid \<rightharpoonup> processing_job)
       \<Rightarrow> sql_error + (processed_image \<times> (uuid \<rightharpoonup> processing_job))" where
  "update_image_row now u OLD jobs =
     (let NEW = apply_image_update u OLD
      in if \<not> (0 \<le> progress_pct NEW \<and> progress_pct NEW \<le> 100) then Inl check_violation
         else if sets_status u \<and> terminal (image_status NEW) \<and> \<not> terminal (image_status OLD)
         then (case sync_job_completion now NEW jobs of
                 Inl e \<Rightarrow> Inl e
               | Inr jobs' \<Rightarrow> Inr (NEW, jobs'))
         else Inr (NEW, jobs))"

text \<open>UPDATE processed_images SET ... WHERE id = i, over the table.\<close>

fun update_images ::
    "timestamp \<Rightarrow> uuid \<Rightarrow> image_update \<Rightarrow> processed_image list \<Rightarrow> (uuid \<rightharpoonup> processing_job)
       \<Rightarrow> sql_error + (processed_image list \<times> (uuid \<rightharpoonup> processing_job))" where
  "update_images now i u [] jobs = Inr ([], jobs)"
| "update_images now i u (r # rs) jobs =
     (if image_id r = i
      then (case update_image_row now u r jobs of
              Inl e \<Rightarrow> Inl e
            | Inr (r', jobs') \<Rightarrow>
                (case update_images now i u rs jobs' of
                   Inl e \<Rightarrow> Inl e
                 | Inr (rs', jobs'') \<Rightarrow> Inr (r' # rs', jobs'')))
      else (case update_images now i u rs jobs of
              Inl e \<Rightarrow> Inl e
            | Inr (rs', jobs') \<Rightarrow> Inr (r # rs', jobs')))"

text \<open>
  db.from('processed_images').update(...).eq('id', i) as the worker uses it: the
  returned error is never looked at, and a failed statement changes nothing.
\<close>

definition db_update_image :: "timestamp \<Rightarrow> uuid \<Rightarrow> db \<Rightarrow> image_update \<Rightarrow> db" where
  "db_update_image now i d u =
     (case update_images now i u (processed_images d) (processing_jobs d) of
        Inl e \<Rightarrow> d
      | Inr (rows, jobs) \<Rightarrow> d\<lparr>processed_images := rows, processing_jobs := jobs\<rparr>)"

section \<open>Worker: POST /api/worker\<close>

subsection \<open>Polling the provider\<close>

text \<open>
  One poll: fetch threw (or the body was not JSON), a response that is not ok, or the
  parsed body. JavaScript numbers are modelled as exact reals.
\<close>

record poll_data =
  pd_status :: string
  pd_progress :: "real option"
  pd_output_url :: "string option"
  pd_error :: "string option"

datatype poll_response = Poll_threw string | Poll_not_ok | Poll_data poll_data

text \<open>Math.round: the nearest integer, halves rounded up.\<close>

definition Math_round :: "real \<Rightarrow> int" where
  "Math_round x = \<lfloor>x + 1 / 2\<rfloor>"

text \<open>A string value is truthy when it is neither null/undefined nor empty.\<close>

definition truthy :: "string option \<Rightarrow> bool" where
  "truthy s \<longleftrightarrow> s \<noteq> None \<and> s \<noteq> Some []"

text \<open>data.progress ?? i / maxAttempts * 100.\<close>

definition reported_or_fallback :: "nat \<Rightarrow> nat \<Rightarrow> poll_data \<Rightarrow> real" where
  "reported_or_fallback maxAttempts i data =
     (case pd_progress data of
        None \<Rightarrow> real i / real maxAttempts * 100
      | Some p \<Rightarrow> p)"

text \<open>The value written by one poll: Math.min(74, progressPct).\<close>

definition poll_progress :: "nat \<Rightarrow> nat \<Rightarrow> poll_data \<Rightarrow> int" where
  "poll_progress maxAttempts i data =
     (let progressPct = 40 + Math_round (reported_or_fallback maxAttempts i data * (35 / 100))
      in min 74 progressPct)"

text \<open>
  The result of pollNanoBanana: the returned output URL (\<open>Inr\<close>) or the message of the
  thrown Error (\<open>Inl\<close>), the progress values written, in order, and the number of calls
  of sleep(intervalMs).
\<close>

record poll_result =
  pr_outcome :: "string + string"
  pr_writes :: "int list"
  pr_sleeps :: nat

definition after_poll :: "int list \<Rightarrow> poll_result \<Rightarrow> poll_result" where
  "after_poll ws r = r\<lparr>pr_writes := ws @ pr_writes r, pr_sleeps := Suc (pr_sleeps r)\<rparr>"

function pollNanoBanana_from :: "(nat \<Rightarrow> poll_response) \<Rightarrow> nat \<Rightarrow> nat \<Rightarrow> poll_result" where
  "pollNanoBanana_from poll maxAttempts i =
     (if i < maxAttempts
      then (case poll i of
              Poll_threw message \<Rightarrow> \<lparr>pr_outcome = Inl message, pr_writes = [], pr_sleeps = 1\<rparr>
            | Poll_not_ok \<Rightarrow> after_poll [] (pollNanoBanana_from poll maxAttempts (i + 1))
            | Poll_data data \<Rightarrow>
                if pd_status data = ''completed'' \<and> truthy (pd_output_url data)
                then \<lparr>pr_outcome = Inr (the (pd_output_url data)),
                      pr_writes = [poll_progress maxAttempts i data], pr_sleeps = 1\<rparr>
                else if pd_status data = ''failed''
                then \<lparr>pr_outcome = Inl (case pd_error data of
                                          None \<Rightarrow> ''Nano Banana processing failed''
                                        | Some e \<Rightarrow> e),
                      pr_writes = [poll_progress maxAttempts i data], pr_sleeps = 1\<rparr>
                else after_poll [poll_progress maxAttempts i data]
                       (pollNanoBanana_from poll maxAttempts (i + 1)))
      else \<lparr>pr_outcome = Inl ''Nano Banana processing timed out'', pr_writes = [],
            pr_sleeps = 0\<rparr>)"
  by pat_completeness auto
termination
  by (relation "measure (\<lambda>(poll, maxAttempts, i). maxAttempts - i)") auto

declare pollNanoBanana_from.simps [simp del]

text \<open>The defaults of the parameter list: maxAttempts = 60, intervalMs = 5000.\<close>

definition maxAttempts_default :: nat where
  "maxAttempts_default = 60"


definition pollNanoBanana :: "(nat \<Rightarrow> poll_response) \<Rightarrow> poll_result" where
  "pollNanoBanana poll = pollNanoBanana_from poll maxAttempts_default 0"



subsection \<open>Processing one image\<close>

datatype submit_response =
  Submit_threw string | Submit_not_ok nat string | Submit_bad_body string | Submit_ok

datatype output_response = Output_threw string | Output_not_ok | Output_ok nat

text \<open>
  What the outside world answers while one image is processed: the signed URL of the
  original (None when signing fails), the provider's answer to the submission (fetch
  threw, a response that is not ok with its status and text, an ok response whose body
  makes nbRes.json() throw, or an ok response with a job id), its answer to the poll of
  each attempt, the answer to the download of the output (with
  the byte length of the body), the error message of the storage upload if it fails, the
  signed download URL, and the clock (Date.now() and NOW()).
\<close>

record image_env =
  sign_original :: "string option"
  submit :: submit_response
  poll :: "nat \<Rightarrow> poll_response"
  fetch_output :: output_response
  store_error :: "string option"
  download_signed :: "string option"
  ie_now :: timestamp

text \<open>
  processImage never reads the database: it is modelled by the UPDATE statements it
  issues on the image's row, in order. The request body sent to the provider (prompt,
  width, height, fit) has no effect on them and is left out.
\<close>

definition processImage ::
    "image_env \<Rightarrow> processed_image \<Rightarrow> uuid \<Rightarrow> processing_job \<Rightarrow> image_update list" where
  "processImage env img jid job =
     Set_processing #
     (if \<not> truthy (sign_original env) then [Set_failed ''Could not sign original URL'']
      else Set_progress 15 #
        (case submit env of
           Submit_threw message \<Rightarrow> [Set_failed message]
         | Submit_not_ok st errText \<Rightarrow>
             [Set_failed (''Nano Banana API error '' @ show_nat st @ '': '' @ errText)]
         | Submit_bad_body message \<Rightarrow> [Set_progress 40, Set_failed message]
         | Submit_ok \<Rightarrow>
             Set_progress 40 #
             map Set_progress (pr_writes (pollNanoBanana (poll env))) @
             (case pr_outcome (pollNanoBanana (poll env)) of
                Inl message \<Rightarrow> [Set_failed message]
              | Inr outputUrl \<Rightarrow>
                  Set_progress 75 #
                  (case fetch_output env of
                     Output_threw message \<Rightarrow> [Set_failed message]
                   | Output_not_ok \<Rightarrow> [Set_failed ''Failed to fetch Nano Banana output'']
                   | Output_ok byteLength \<Rightarrow>
                       (case store_error env of
                          Some message \<Rightarrow> [Set_failed (''Storage upload failed: '' @ message)]
                        | None \<Rightarrow>
                            [Set_completed
                               (''outputs/'' @ job_user_id job @ ''/'' @ jid @ ''/enhanced_''
                                  @ show_int (position img) @ ''.jpg'')
                               byteLength (download_signed env)
                               (ie_now env + 86400 * 1000)])))))"



subsection \<open>The route handler\<close>

record worker_env =
  WORKER_SECRET :: string
  we_now :: timestamp
  image_envs :: "uuid \<Rightarrow> image_env"

datatype worker_response =
  Forbidden | JobId_required | Job_not_found | No_images | Worker_ok int int

definition run_processImage ::
    "worker_env \<Rightarrow> uuid \<Rightarrow> processing_job \<Rightarrow> db \<Rightarrow> processed_image \<Rightarrow> db" where
  "run_processImage env jid job d img =
     foldl (db_update_image (ie_now (image_envs env (image_id img))) (image_id img)) d
       (processImage (image_envs env (image_id img)) img jid job)"

text \<open>
  The POST handler. sendCompletionEmail only logs, and is left out. The job row loaded
  at the start (\<open>job\<close>) is what processImage and the notification use afterwards.
\<close>

definition worker_POST ::
    "worker_env \<Rightarrow> string option \<Rightarrow> string option \<Rightarrow> db \<Rightarrow> worker_response \<times> db" where
  "worker_POST env secret body_jobId d =
     (if secret \<noteq> Some (WORKER_SECRET env) then (Forbidden, d)
      else if \<not> truthy body_jobId then (JobId_required, d)
      else
        (let jobId = the body_jobId
         in case processing_jobs d jobId of
              None \<Rightarrow> (Job_not_found, d)
            | Some job \<Rightarrow>
              (let d1 = update_job d jobId
                          (\<lambda>j. j\<lparr>job_status := processing, started_at := Some (we_now env)\<rparr>);
                   images = sort_key position
                              (filter (\<lambda>r. job_id r = jobId) (processed_images d1));
                   d2 = foldl (run_processImage env jobId job) d1 images;
                   completedCount = (case processing_jobs d2 jobId of
                                       None \<Rightarrow> 0 | Some finalJob \<Rightarrow> completed_count finalJob);
                   failedCount = (case processing_jobs d2 jobId of
                                    None \<Rightarrow> 0 | Some finalJob \<Rightarrow> failed_count finalJob);
                   d3 = insert_notification d2
                          \<lparr>n_user_id = job_user_id job,
                           n_type = (if completedCount > 0 then ''job_completed''
                                     else ''job_failed''),
                           n_job_id = Some jobId\<rparr>
               in
               if images = []
               then (No_images,
                     update_job d1 jobId
                       (\<lambda>j. j\<lparr>job_status := failed,
                               job_error_message := Some ''No images found''\<rparr>))
               else (Worker_ok completedCount failedCount, d3))))"

section \<open>Credit grants: POST /api/webhooks/stripe\<close>

text \<open>
  The tables of the route, by price id (the ids come from the environment; these are
  the defaults): plan name and monthly credits, and credits per top-up pack.
\<close>

definition PLAN_CREDITS :: "string \<rightharpoonup> string \<times> int" where
  "PLAN_CREDITS = [''price_starter'' \<mapsto> (''starter'', 20), ''price_pro'' \<mapsto> (''pro'', 100),
     ''price_agency'' \<mapsto> (''agency'', 500)]"

definition TOPUP_CREDITS :: "string \<rightharpoonup> int" where
  "TOPUP_CREDITS = [''price_topup_10'' \<mapsto> 10, ''price_topup_50'' \<mapsto> 50,
     ''price_topup_100'' \<mapsto> 100]"

text \<open>case 'invoice.payment_succeeded': subscription created or renewed.\<close>

definition invoice_payment_succeeded ::
    "db \<Rightarrow> string \<Rightarrow> string \<Rightarrow> string option \<Rightarrow> string \<Rightarrow> db" where
  "invoice_payment_succeeded d billing_reason priceId metadata_user_id invoice_id =
     (if billing_reason = ''subscription_create'' \<or> billing_reason = ''subscription_cycle''
      then (case PLAN_CREDITS priceId of
              None \<Rightarrow> d
            | Some config \<Rightarrow>
                if \<not> truthy metadata_user_id then d
                else
                  (let userId = the metadata_user_id;
                       d1 = update_profile d userId
                              (\<lambda>p. p\<lparr>monthly_credits := snd config, credits_used_cycle := 0\<rparr>);
                       d2 = insert_credit_transaction d1
                              \<lparr>tx_user_id = userId, amount = snd config,
                               balance_after = snd config, source = ''monthly_grant'',
                               reference_id = Some invoice_id\<rparr>
                   in insert_notification d2
                        \<lparr>n_user_id = userId, n_type = ''subscription_renewed'', n_job_id = None\<rparr>))
      else d)"

text \<open>
  case 'checkout.session.completed': one-time top-up purchase. The UPDATE is rejected
  when newTopup is outside INT.
\<close>

definition checkout_session_completed ::
    "db \<Rightarrow> string \<Rightarrow> string option \<Rightarrow> string option \<Rightarrow> string option \<Rightarrow> db" where
  "checkout_session_completed d mode metadata_user_id metadata_price_id payment_intent =
     (if mode \<noteq> ''payment'' then d
      else if \<not> truthy metadata_user_id \<or> \<not> truthy metadata_price_id then d
      else (case TOPUP_CREDITS (the metadata_price_id) of
              None \<Rightarrow> d
            | Some credits \<Rightarrow>
                (let userId = the metadata_user_id;
                     newTopup = (case profiles d userId of
                                   None \<Rightarrow> 0 | Some p \<Rightarrow> topup_credits p) + credits;
                     newBalance = (case profiles d userId of
                                     None \<Rightarrow> 0 | Some p \<Rightarrow> monthly_credits p) + newTopup;
                     d1 = (if int4 newTopup
                           then update_profile d userId (\<lambda>p. p\<lparr>topup_credits := newTopup\<rparr>)
                           else d);
                     d2 = insert_credit_transaction d1
                            \<lparr>tx_user_id = userId, amount = credits, balance_after = newBalance,
                             source = ''topup_purchase'', reference_id = payment_intent\<rparr>
                 in insert_notification d2
                      \<lparr>n_user_id = userId, n_type = ''subscription_renewed'', n_job_id = None\<rparr>)))"

subsection \<open>Sequences of wallet operations\<close>

text \<open>
  The operations that change a wallet and write the ledger: the charge of a submission
  of n files (the deduct_credits call of POST /api/process), the monthly grant of a paid
  invoice, and a top-up purchase. The repository has no refund operation.
\<close>

datatype wallet_op = Charge nat | Monthly_grant string string | Topup string string

fun apply_wallet_op :: "uuid \<Rightarrow> db \<Rightarrow> wallet_op \<Rightarrow> db" where
  "apply_wallet_op u d (Charge n) = snd (rpc_deduct_credits d u (int n))"
| "apply_wallet_op u d (Monthly_grant priceId invoice_id) =
     invoice_payment_succeeded d ''subscription_cycle'' priceId (Some u) invoice_id"
| "apply_wallet_op u d (Topup priceId payment_intent) =
     checkout_session_completed d ''payment'' (Some u) (Some priceId) (Some payment_intent)"

definition run_wallet_ops :: "uuid \<Rightarrow> db \<Rightarrow> wallet_op list \<Rightarrow> db" where
  "run_wallet_ops u d ops = foldl (apply_wallet_op u) d ops"

fun is_monthly_grant :: "wallet_op \<Rightarrow> bool" where
  "is_monthly_grant (Monthly_grant priceId invoice_id) = True"
| "is_monthly_grant op = False"

text \<open>The sum of the amounts of the user's ledger entries.\<close>

definition ledger_sum :: "db \<Rightarrow> uuid \<Rightarrow> int" where
  "ledger_sum d u = sum_list (map amount (filter (\<lambda>r. tx_user_id r = u) (credit_transactions d)))"

text \<open>The ledger entries that a step from d to d' appended.\<close>

definition appended :: "db \<Rightarrow> db \<Rightarrow> credit_transaction list" where
  "appended d d' = drop (length (credit_transactions d)) (credit_transactions d')"

definition wallet_nonneg :: "db \<Rightarrow> uuid \<Rightarrow> bool" where
  "wallet_nonneg d u =
     (case profiles d u of
        None \<Rightarrow> False
      | Some p \<Rightarrow> 0 \<le> monthly_credits p \<and> 0 \<le> topup_credits p)"

text \<open>
  Replaying a sequence of operations: at every step, the ledger is only appended to, and
  each entry appended is the user's and carries the balance the wallet has right after
  the step.
\<close>

fun replay_ok :: "uuid \<Rightarrow> db \<Rightarrow> wallet_op list \<Rightarrow> bool" where
  "replay_ok u d [] = True"
| "replay_ok u d (op # ops) =
     ((\<forall>e \<in> set (appended d (apply_wallet_op u d op)).
          tx_user_id e = u
        \<and> get_available_credits (apply_wallet_op u d op) u = Some (balance_after e))
      \<and> take (length (credit_transactions d)) (credit_transactions (apply_wallet_op u d op))
          = credit_transactions d
      \<and> replay_ok u (apply_wallet_op u d op) ops)"

text \<open>The wallet agrees with its ledger.\<close>

definition consistent :: "db \<Rightarrow> uuid \<Rightarrow> bool" where
  "consistent d u \<longleftrightarrow> wallet_nonneg d u \<and> get_available_credits d u = Some (ledger_sum d u)"

text \<open>One step from d to d' that keeps the wallet and the ledger in agreement.\<close>

definition step_ok :: "uuid \<Rightarrow> db \<Rightarrow> db \<Rightarrow> bool" where
  "step_ok u d d' \<longleftrightarrow>
     consistent d' u \<and> ledger_sum d' u \<le> ledger_sum d u + 100
   \<and> (\<forall>e \<in> set (appended d d'). tx_user_id e = u
          \<and> get_available_credits d' u = Some (balance_after e))
   \<and> take (length (credit_transactions d)) (credit_transactions d') = credit_transactions d"

section \<open>Bundle cache: POST /api/jobs/[id]/zip\<close>






















section \<open>Example states\<close>

definition empty_db :: db where
  "empty_db = \<lparr>profiles = Map.empty, credit_transactions = [], processing_jobs = Map.empty,
     processed_images = [], zip_bundles = [], notifications = []\<rparr>"

definition wallet_db :: "int \<Rightarrow> int \<Rightarrow> int \<Rightarrow> db" where
  "wallet_db m t used = empty_db\<lparr>profiles := [''u1'' \<mapsto>
     \<lparr>monthly_credits = m, topup_credits = t, credits_used_cycle = used\<rparr>]\<rparr>"

definition jpeg :: "string \<Rightarrow> form_file" where
  "jpeg name = \<lparr>file_name = name, file_type = ''image/jpeg'', file_size = 1000\<rparr>"

definition env_uploads :: "(nat \<Rightarrow> bool) \<Rightarrow> process_env" where
  "env_uploads err = \<lparr>auth_user = Some ''u1'', new_job_id = Some ''j1'', upload_error = err,
     new_image_id = (\<lambda>n. ''img'' @ show_nat n)\<rparr>"

definition job1 :: processing_job where
  "job1 = \<lparr>job_user_id = ''u1'', vibe = ''natural_light'', ratio = ''AUTO'', total_images = 1,
     completed_count = 1, failed_count = 0, job_status = completed, credits_charged = 1,
     started_at = Some 10, completed_at = Some 20, job_error_message = None\<rparr>"

definition image1 :: processed_image where
  "image1 = \<lparr>image_id = ''img1'', job_id = ''j1'', image_user_id = ''u1'',
     original_path = ''uploads/u1/j1/original_1.jpg'',
     output_path = Some ''outputs/u1/j1/enhanced_1.jpg'', original_filename = ''a.jpg'',
     file_size_bytes = Some 2000, image_status = completed, position = 1, progress_pct = 100,
     output_signed_url = Some ''https://signed/output'', output_signed_url_exp = Some 90000,
     image_error_message = None\<rparr>"

text \<open>A completed batch of one image.\<close>

definition completed_db :: db where
  "completed_db = (wallet_db 0 0 1)\<lparr>processing_jobs := [''j1'' \<mapsto> job1],
     processed_images := [image1]\<rparr>"

definition answer :: "string \<Rightarrow> real option \<Rightarrow> string option \<Rightarrow> poll_response" where
  "answer st pr url =
     Poll_data \<lparr>pd_status = st, pd_progress = pr, pd_output_url = url, pd_error = None\<rparr>"

text \<open>An environment in which everything but the polls is fixed and succeeds.\<close>

definition image_env_ok :: "(nat \<Rightarrow> poll_response) \<Rightarrow> image_env" where
  "image_env_ok pf = \<lparr>sign_original = Some ''https://signed/original'', submit = Submit_ok,
     poll = pf, fetch_output = Output_ok 2000, store_error = None,
     download_signed = Some ''https://signed/output'', ie_now = 1000\<rparr>"

text \<open>
  A worker environment in which the provider completes at the first poll and the
  storage upload of the output is refused.
\<close>

definition worker_env1 :: worker_env where
  "worker_env1 = \<lparr>WORKER_SECRET = ''s3cret'', we_now = 500,
     image_envs = (\<lambda>i. (image_env_ok
        (\<lambda>k. answer ''completed'' (Some 100) (Some ''https://nb/out'')))
        \<lparr>store_error := Some ''The resource already exists''\<rparr>)\<rparr>"



section \<open>Credit ledger: charges\<close>

lemma validate_files_status:
  "validate_files fs \<noteq> None \<Longrightarrow> http_status (the (validate_files fs)) = 400"
  by (induction fs) (auto split: if_splits)

lemma process_POST_insufficient:
  assumes "profiles d u = Some p"
    and "monthly_credits p + topup_credits p < int (length files)"
    and "auth_user env = Some u"
  shows "snd (process_POST env files form_vibe form_ratio d) = d
       \<and> http_status (fst (process_POST env files form_vibe form_ratio d)) \<noteq> 200"
  using assms by (simp add: process_POST_def Let_def validate_files_status)

text \<open>
  C6. For every user and every amount strictly greater than the user's available
  balance (monthly_credits + topup_credits), the charge returns failure (FALSE, or a
  raised error seen as null by the caller; never TRUE) and leaves the whole database,
  hence the wallet balances, credits_used_cycle and the ledger, unchanged: no entry is
  appended. With both values in the INT range the returned value is FALSE. A submission
  of more files than the balance covers is rejected by the route, database unchanged.
\<close>

theorem deduct_credits_insufficient:
  assumes "get_available_credits d u = Some avail" and "avail < a"
  shows "fst (rpc_deduct_credits d u a) \<noteq> Some True
       \<and> snd (rpc_deduct_credits d u a) = d
       \<and> (int4 avail \<and> int4 a \<longrightarrow> deduct_credits d u a = Inr (False, d))
       \<and> (auth_user env = Some u \<and> a = int (length files) \<longrightarrow>
            snd (process_POST env files form_vibe form_ratio d) = d
          \<and> http_status (fst (process_POST env files form_vibe form_ratio d)) \<noteq> 200)"
proof -
  from assms obtain p where p: "profiles d u = Some p" "avail = monthly_credits p + topup_credits p"
    by (auto simp: get_available_credits_def split: option.splits)
  have 1: "fst (rpc_deduct_credits d u a) \<noteq> Some True \<and> snd (rpc_deduct_credits d u a) = d"
    using p assms(2)
    by (auto simp: rpc_deduct_credits_def deduct_credits_def Let_def split: sum.splits if_splits)
  have 2: "int4 avail \<and> int4 a \<longrightarrow> deduct_credits d u a = Inr (False, d)"
    using p assms(2) by (simp add: deduct_credits_def Let_def)
  have 3: "auth_user env = Some u \<and> a = int (length files) \<longrightarrow>
            snd (process_POST env files form_vibe form_ratio d) = d
          \<and> http_status (fst (process_POST env files form_vibe form_ratio d)) \<noteq> 200"
    using process_POST_insufficient [OF p(1), of files env form_vibe form_ratio] p(2) assms(2)
    by blast
  from 1 2 3 show ?thesis by blast
qed

text \<open>A wallet of 2 credits and a submission of 5 images.\<close>

theorem deduct_credits_insufficient_witness:
  "get_available_credits (wallet_db 1 1 0) ''u1'' = Some 2 \<and> (2::int) < 5
   \<and> deduct_credits (wallet_db 1 1 0) ''u1'' 5 = Inr (False, wallet_db 1 1 0)
   \<and> snd (process_POST (env_uploads (\<lambda>i. False))
        [jpeg ''a.jpg'', jpeg ''b.jpg'', jpeg ''c.jpg'', jpeg ''d.jpg'', jpeg ''e.jpg''] None None
        (wallet_db 1 1 0)) = wallet_db 1 1 0
   \<and> fst (process_POST (env_uploads (\<lambda>i. False))
        [jpeg ''a.jpg'', jpeg ''b.jpg'', jpeg ''c.jpg'', jpeg ''d.jpg'', jpeg ''e.jpg''] None None
        (wallet_db 1 1 0)) = Insufficient_credits 2 5"
proof -
  let ?files = "[jpeg ''a.jpg'', jpeg ''b.jpg'', jpeg ''c.jpg'', jpeg ''d.jpg'', jpeg ''e.jpg'']"
  have a: "get_available_credits (wallet_db 1 1 0) ''u1'' = Some 2"
    by (simp add: get_available_credits_def wallet_db_def empty_db_def)
  have r: "int4 2 \<and> int4 5" by (simp add: int4_def)
  have e: "auth_user (env_uploads (\<lambda>i. False)) = Some ''u1'' \<and> (5::int) = int (length ?files)"
    by (simp add: env_uploads_def)
  have lt: "(2::int) < 5" by simp
  note t = deduct_credits_insufficient [OF a lt, of "env_uploads (\<lambda>i. False)" ?files None None]
  from t r have c3: "deduct_credits (wallet_db 1 1 0) ''u1'' 5 = Inr (False, wallet_db 1 1 0)"
    by blast
  from t e have c4: "snd (process_POST (env_uploads (\<lambda>i. False)) ?files None None (wallet_db 1 1 0))
      = wallet_db 1 1 0"
    by blast
  have c5: "fst (process_POST (env_uploads (\<lambda>i. False)) ?files None None (wallet_db 1 1 0))
      = Insufficient_credits 2 5"
    by (simp add: process_POST_def Let_def env_uploads_def wallet_db_def empty_db_def jpeg_def
        MAX_FILES_def ACCEPTED_TYPES_def MAX_FILE_SIZE_MB_def VIBE_KEYS_def ASPECT_RATIO_MAP_def)
  from a lt c3 c4 c5 show ?thesis by blast
qed

text \<open>
  C7. For every successful charge of amount a against a wallet with monthly balance m
  and top-up balance t (both non-negative) where m + t \<ge> a: min(a, m) is taken from the
  monthly balance and a - min(a, m) from the top-up balance, credits_used_cycle grows by
  a, both balances stay non-negative, and exactly one ledger entry is appended, with
  amount -a and balance_after the resulting total balance. Nothing else changes.
\<close>

theorem deduct_credits_charge:
  assumes "profiles d u = Some p"
    and "0 \<le> monthly_credits p" and "0 \<le> topup_credits p"
    and "a \<le> monthly_credits p + topup_credits p"
    and "deduct_credits d u a = Inr (True, d')"
  shows "d' = d\<lparr>profiles := (profiles d)(u \<mapsto>
                 p\<lparr>monthly_credits := monthly_credits p - min a (monthly_credits p),
                   topup_credits := topup_credits p - (a - min a (monthly_credits p)),
                   credits_used_cycle := credits_used_cycle p + a\<rparr>),
               credit_transactions := credit_transactions d @
                 [\<lparr>tx_user_id = u, amount = - a,
                   balance_after = (monthly_credits p - min a (monthly_credits p))
                                 + (topup_credits p - (a - min a (monthly_credits p))),
                   source = ''job_charge'', reference_id = None\<rparr>]\<rparr>
       \<and> 0 \<le> monthly_credits p - min a (monthly_credits p)
       \<and> 0 \<le> topup_credits p - (a - min a (monthly_credits p))"
  using assms
  by (auto simp: deduct_credits_def Let_def split: if_splits)

text \<open>A charge of 5 against 3 monthly and 4 top-up credits.\<close>

theorem deduct_credits_charge_witness:
  "profiles (wallet_db 3 4 1) ''u1''
     = Some \<lparr>monthly_credits = 3, topup_credits = 4, credits_used_cycle = 1\<rparr>
   \<and> deduct_credits (wallet_db 3 4 1) ''u1'' 5 = Inr (True,
       (wallet_db 3 4 1)\<lparr>profiles := (profiles (wallet_db 3 4 1))(''u1'' \<mapsto>
          \<lparr>monthly_credits = 0, topup_credits = 2, credits_used_cycle = 6\<rparr>),
        credit_transactions := [\<lparr>tx_user_id = ''u1'', amount = - 5, balance_after = 2,
           source = ''job_charge'', reference_id = None\<rparr>]\<rparr>)
   \<and> (0::int) \<le> 3 - min 5 3 \<and> (0::int) \<le> 4 - (5 - min 5 3)"
proof -
  let ?p = "\<lparr>monthly_credits = 3, topup_credits = 4, credits_used_cycle = 1\<rparr>"
  let ?d' = "(wallet_db 3 4 1)\<lparr>profiles := (profiles (wallet_db 3 4 1))(''u1'' \<mapsto>
        \<lparr>monthly_credits = 0, topup_credits = 2, credits_used_cycle = 6\<rparr>),
      credit_transactions := [\<lparr>tx_user_id = ''u1'', amount = - 5, balance_after = 2,
         source = ''job_charge'', reference_id = None\<rparr>]\<rparr>"
  have p: "profiles (wallet_db 3 4 1) ''u1'' = Some ?p"
    by (simp add: wallet_db_def empty_db_def)
  have h: "0 \<le> monthly_credits ?p" "0 \<le> topup_credits ?p"
    "5 \<le> monthly_credits ?p + topup_credits ?p"
    by simp_all
  have ok: "deduct_credits (wallet_db 3 4 1) ''u1'' 5 = Inr (True, ?d')"
    by (simp add: deduct_credits_def wallet_db_def empty_db_def int4_def Let_def)
  from deduct_credits_charge [OF p h ok]
  have "0 \<le> monthly_credits ?p - min 5 (monthly_credits ?p)
      \<and> 0 \<le> topup_credits ?p - (5 - min 5 (monthly_credits ?p))"
    by blast
  with p ok show ?thesis by simp
qed


section \<open>Batch submission: charges on failed uploads\<close>

lemmas route_eval = process_POST_def Let_def env_uploads_def wallet_db_def empty_db_def jpeg_def
        MAX_FILES_def ACCEPTED_TYPES_def MAX_FILE_SIZE_MB_def VIBE_KEYS_def ASPECT_RATIO_MAP_def
        rpc_deduct_credits_def deduct_credits_def int4_def upload_one_def update_job_def
        image_row_def toLowerCase_def split_pop_def show_nat.simps

text \<open>
  C1: when every upload fails the batch is marked failed and the charge is refunded
  through a ledger entry. The route marks the batch failed and answers that the credits
  were refunded, but issues no refund: for 5 files and a wallet of 5 credits the wallet
  stays at 0 and the ledger holds the charge alone.
\<close>

theorem all_uploads_failed_not_refunded:
  "fst (process_POST (env_uploads (\<lambda>i. True))
          [jpeg ''a.jpg'', jpeg ''b.jpg'', jpeg ''c.jpg'', jpeg ''d.jpg'', jpeg ''e.jpg''] None None
          (wallet_db 5 0 0)) = All_uploads_failed_Credits_refunded
   \<and> profiles (snd (process_POST (env_uploads (\<lambda>i. True))
          [jpeg ''a.jpg'', jpeg ''b.jpg'', jpeg ''c.jpg'', jpeg ''d.jpg'', jpeg ''e.jpg''] None None
          (wallet_db 5 0 0))) ''u1''
       = Some \<lparr>monthly_credits = 0, topup_credits = 0, credits_used_cycle = 5\<rparr>
   \<and> credit_transactions (snd (process_POST (env_uploads (\<lambda>i. True))
          [jpeg ''a.jpg'', jpeg ''b.jpg'', jpeg ''c.jpg'', jpeg ''d.jpg'', jpeg ''e.jpg''] None None
          (wallet_db 5 0 0)))
       = [\<lparr>tx_user_id = ''u1'', amount = - 5, balance_after = 0, source = ''job_charge'',
           reference_id = None\<rparr>]
   \<and> processing_jobs (snd (process_POST (env_uploads (\<lambda>i. True))
          [jpeg ''a.jpg'', jpeg ''b.jpg'', jpeg ''c.jpg'', jpeg ''d.jpg'', jpeg ''e.jpg''] None None
          (wallet_db 5 0 0))) ''j1''
       = Some \<lparr>job_user_id = ''u1'', vibe = ''natural_light'', ratio = ''AUTO'',
            total_images = 5, completed_count = 0, failed_count = 0, job_status = failed,
            credits_charged = 5, started_at = None, completed_at = None,
            job_error_message = None\<rparr>"
  by (simp add: route_eval)

text \<open>
  C4: the charge equals the number of images accepted. For 2 files of which the second
  fails to upload, the response reports 1 credit charged and total_images becomes 1,
  but the wallet was charged 2 and credits_charged stays 2.
\<close>

theorem partial_upload_charged_in_full:
  "fst (process_POST (env_uploads (\<lambda>i. i = 1)) [jpeg ''a.jpg'', jpeg ''b.jpg''] None None
          (wallet_db 5 0 0)) = Job_created ''j1'' 1
   \<and> profiles (snd (process_POST (env_uploads (\<lambda>i. i = 1)) [jpeg ''a.jpg'', jpeg ''b.jpg'']
          None None (wallet_db 5 0 0))) ''u1''
       = Some \<lparr>monthly_credits = 3, topup_credits = 0, credits_used_cycle = 2\<rparr>
   \<and> credit_transactions (snd (process_POST (env_uploads (\<lambda>i. i = 1))
          [jpeg ''a.jpg'', jpeg ''b.jpg''] None None (wallet_db 5 0 0)))
       = [\<lparr>tx_user_id = ''u1'', amount = - 2, balance_after = 3, source = ''job_charge'',
           reference_id = None\<rparr>]
   \<and> map_option credits_charged (processing_jobs (snd (process_POST (env_uploads (\<lambda>i. i = 1))
          [jpeg ''a.jpg'', jpeg ''b.jpg''] None None (wallet_db 5 0 0))) ''j1'') = Some 2
   \<and> map_option total_images (processing_jobs (snd (process_POST (env_uploads (\<lambda>i. i = 1))
          [jpeg ''a.jpg'', jpeg ''b.jpg''] None None (wallet_db 5 0 0))) ''j1'') = Some 1
   \<and> map position (processed_images (snd (process_POST (env_uploads (\<lambda>i. i = 1))
          [jpeg ''a.jpg'', jpeg ''b.jpg''] None None (wallet_db 5 0 0)))) = [1]"
  by (simp add: route_eval)

section \<open>Credit ledger: replaying the ledger\<close>

lemma PLAN_CREDITS_nonneg: "PLAN_CREDITS k = Some c \<Longrightarrow> 0 \<le> snd c"
  by (auto simp: PLAN_CREDITS_def split: if_splits)

lemma TOPUP_CREDITS_range: "TOPUP_CREDITS k = Some c \<Longrightarrow> 0 < c \<and> c \<le> 100"
  by (auto simp: TOPUP_CREDITS_def split: if_splits)

lemma profiles_insert_notification [simp]:
  "profiles (insert_notification d n) = profiles d"
  by (simp add: insert_notification_def)

lemma transactions_insert_notification [simp]:
  "credit_transactions (insert_notification d n) = credit_transactions d"
  by (simp add: insert_notification_def)

lemma profiles_insert_credit_transaction [simp]:
  "profiles (insert_credit_transaction d r) = profiles d"
  by (simp add: insert_credit_transaction_def)

lemma wallet_nonneg_notification [simp]:
  "wallet_nonneg (insert_notification d n) u = wallet_nonneg d u"
  by (simp add: insert_notification_def wallet_nonneg_def)

lemma wallet_nonneg_transaction [simp]:
  "wallet_nonneg (insert_credit_transaction d r) u = wallet_nonneg d u"
  by (simp add: insert_credit_transaction_def wallet_nonneg_def)

lemma charge_nonneg:
  "wallet_nonneg d u \<Longrightarrow> wallet_nonneg (snd (rpc_deduct_credits d u (int n))) u"
  by (auto simp: wallet_nonneg_def rpc_deduct_credits_def deduct_credits_def Let_def
           split: option.splits if_splits)

lemma monthly_nonneg:
  "wallet_nonneg d u \<Longrightarrow> wallet_nonneg (invoice_payment_succeeded d r k (Some u) i) u"
  by (auto simp: invoice_payment_succeeded_def Let_def update_profile_def wallet_nonneg_def
           dest: PLAN_CREDITS_nonneg split: option.splits)

lemma topup_nonneg:
  "wallet_nonneg d u \<Longrightarrow> wallet_nonneg (checkout_session_completed d r (Some u) k i) u"
  by (auto simp: checkout_session_completed_def Let_def update_profile_def wallet_nonneg_def
           dest: TOPUP_CREDITS_range split: option.splits)

lemma apply_wallet_op_nonneg:
  "wallet_nonneg d u \<Longrightarrow> wallet_nonneg (apply_wallet_op u d op) u"
  by (cases op) (simp_all add: charge_nonneg monthly_nonneg topup_nonneg)

lemma run_wallet_ops_nonneg:
  "wallet_nonneg d u \<Longrightarrow> wallet_nonneg (run_wallet_ops u d ops) u"
  unfolding run_wallet_ops_def
  by (induction ops arbitrary: d) (simp_all add: apply_wallet_op_nonneg)


lemma rpc_deduct_credits_cases:
  assumes "profiles d u = Some p"
  shows "snd (rpc_deduct_credits d u a) = d
       \<or> (a \<le> monthly_credits p + topup_credits p
          \<and> snd (rpc_deduct_credits d u a) =
              d\<lparr>profiles := (profiles d)(u \<mapsto>
                   p\<lparr>monthly_credits := monthly_credits p - min a (monthly_credits p),
                     topup_credits := topup_credits p - (a - min a (monthly_credits p)),
                     credits_used_cycle := credits_used_cycle p + a\<rparr>),
                 credit_transactions := credit_transactions d @
                   [\<lparr>tx_user_id = u, amount = - a,
                     balance_after = (monthly_credits p - min a (monthly_credits p))
                                   + (topup_credits p - (a - min a (monthly_credits p))),
                     source = ''job_charge'', reference_id = None\<rparr>]\<rparr>)"
  using assms by (simp add: rpc_deduct_credits_def deduct_credits_def Let_def)

lemma step_ok_refl: "consistent d u \<Longrightarrow> step_ok u d d"
  by (simp add: step_ok_def appended_def)

lemma charge_step_ok:
  assumes "consistent d u"
  shows "step_ok u d (snd (rpc_deduct_credits d u (int n)))"
proof -
  from assms obtain p where p: "profiles d u = Some p"
    and nn: "0 \<le> monthly_credits p" "0 \<le> topup_credits p"
    and bal: "monthly_credits p + topup_credits p = ledger_sum d u"
    by (auto simp: consistent_def wallet_nonneg_def get_available_credits_def split: option.splits)
  from rpc_deduct_credits_cases [OF p, of "int n"] show ?thesis
  proof
    assume "snd (rpc_deduct_credits d u (int n)) = d"
    with assms show ?thesis by (simp add: step_ok_refl)
  next
    assume a: "int n \<le> monthly_credits p + topup_credits p \<and> snd (rpc_deduct_credits d u (int n)) =
              d\<lparr>profiles := (profiles d)(u \<mapsto>
                   p\<lparr>monthly_credits := monthly_credits p - min (int n) (monthly_credits p),
                     topup_credits := topup_credits p - (int n - min (int n) (monthly_credits p)),
                     credits_used_cycle := credits_used_cycle p + int n\<rparr>),
                 credit_transactions := credit_transactions d @
                   [\<lparr>tx_user_id = u, amount = - int n,
                     balance_after = (monthly_credits p - min (int n) (monthly_credits p))
                                   + (topup_credits p - (int n - min (int n) (monthly_credits p))),
                     source = ''job_charge'', reference_id = None\<rparr>]\<rparr>"
    then have le: "int n \<le> monthly_credits p + topup_credits p" by blast
    from le nn have m': "0 \<le> monthly_credits p - min (int n) (monthly_credits p)"
      and t': "0 \<le> topup_credits p - (int n - min (int n) (monthly_credits p))"
      by linarith+
    have s: "(monthly_credits p - min (int n) (monthly_credits p))
           + (topup_credits p - (int n - min (int n) (monthly_credits p)))
           = ledger_sum d u - int n"
      using bal by linarith
    from a m' t' s show ?thesis
      by (simp add: step_ok_def consistent_def wallet_nonneg_def get_available_credits_def
            ledger_sum_def appended_def)
  qed
qed

lemma topup_step_ok:
  assumes "consistent d u" and "ledger_sum d u + 100 \<le> 2147483647"
  shows "step_ok u d (checkout_session_completed d ''payment'' (Some u) (Some k) (Some i))"
proof -
  from assms obtain p where p: "profiles d u = Some p"
    and nn: "0 \<le> monthly_credits p" "0 \<le> topup_credits p"
    and bal: "monthly_credits p + topup_credits p = ledger_sum d u"
    by (auto simp: consistent_def wallet_nonneg_def get_available_credits_def split: option.splits)
  show ?thesis
  proof (cases "truthy (Some u) \<and> truthy (Some k) \<and> TOPUP_CREDITS k \<noteq> None")
    case False
    with assms show ?thesis
      by (auto simp: checkout_session_completed_def step_ok_refl)
  next
    case True
    then obtain c where c: "TOPUP_CREDITS k = Some c" by auto
    from TOPUP_CREDITS_range [OF c] have cr: "0 < c" "c \<le> 100" by simp_all
    from cr nn bal assms(2) have r: "int4 (topup_credits p + c)" "int4 c"
      "int4 (monthly_credits p + (topup_credits p + c))"
      by (simp_all add: int4_def)
    from True c p r nn bal cr show ?thesis
      by (simp add: checkout_session_completed_def Let_def update_profile_def
            insert_credit_transaction_def step_ok_def consistent_def wallet_nonneg_def
            get_available_credits_def ledger_sum_def appended_def)
  qed
qed

lemma apply_wallet_op_step_ok:
  assumes "consistent d u" and "ledger_sum d u + 100 \<le> 2147483647" and "\<not> is_monthly_grant op"
  shows "step_ok u d (apply_wallet_op u d op)"
  using assms by (cases op) (simp_all add: charge_step_ok topup_step_ok)

lemma replay_ok_run:
  assumes "consistent d u"
    and "ledger_sum d u + 100 * int (length ops) \<le> 2147483647"
    and "\<forall>op \<in> set ops. \<not> is_monthly_grant op"
  shows "replay_ok u d ops \<and> consistent (run_wallet_ops u d ops) u"
  using assms
proof (induction ops arbitrary: d)
  case Nil
  then show ?case by (simp add: run_wallet_ops_def)
next
  case (Cons op ops)
  from Cons.prems have s: "step_ok u d (apply_wallet_op u d op)"
    by (intro apply_wallet_op_step_ok) auto
  then have c: "consistent (apply_wallet_op u d op) u"
    and b: "ledger_sum (apply_wallet_op u d op) u + 100 * int (length ops) \<le> 2147483647"
    using Cons.prems(2) by (auto simp: step_ok_def)
  from Cons.IH [OF c b] Cons.prems(3)
  have "replay_ok u (apply_wallet_op u d op) ops
      \<and> consistent (run_wallet_ops u (apply_wallet_op u d op) ops) u"
    by simp
  with s show ?case by (simp add: step_ok_def run_wallet_ops_def)
qed

text \<open>
  C3 as stated fails: a monthly grant sets monthly_credits to the plan's allowance, so
  credits left over from the cycle before are dropped without a ledger entry. From an
  empty wallet and ledger: grant 20, charge 5, grant 20 leaves a balance of 20 and a
  ledger that sums to 35.
\<close>

theorem ledger_sum_monthly_grant_counterexample:
  "get_available_credits (run_wallet_ops ''u1'' (wallet_db 0 0 0)
       [Monthly_grant ''price_starter'' ''in_1'', Charge 5,
        Monthly_grant ''price_starter'' ''in_2'']) ''u1'' = Some 20
   \<and> ledger_sum (run_wallet_ops ''u1'' (wallet_db 0 0 0)
       [Monthly_grant ''price_starter'' ''in_1'', Charge 5,
        Monthly_grant ''price_starter'' ''in_2'']) ''u1'' = 35
   \<and> credit_transactions (wallet_db 0 0 0) = []"
  by (simp add: run_wallet_ops_def invoice_payment_succeeded_def PLAN_CREDITS_def truthy_def
        update_profile_def insert_credit_transaction_def insert_notification_def
        rpc_deduct_credits_def deduct_credits_def Let_def int4_def wallet_db_def empty_db_def
        get_available_credits_def ledger_sum_def)

text \<open>
  C3, amended. From a wallet with non-negative balances, every sequence of charges,
  monthly grants and top-ups leaves both balances non-negative. A monthly grant sets
  monthly_credits to the plan's allowance and leaves topup_credits alone. When the
  sequence has no monthly grant, the ledger sum equals the balance at the start and the balance stays
  inside the INT range (a top-up adds at most 100), the final balance equals the sum of
  the user's ledger amounts and every entry appended on the way carries the balance the
  wallet had right after that step.
\<close>

theorem ledger_replay_charges_topups:
  assumes "wallet_nonneg d u"
  shows "wallet_nonneg (run_wallet_ops u d ops) u
       \<and> (PLAN_CREDITS priceId = Some config \<and> u \<noteq> [] \<longrightarrow>
            map_option monthly_credits
              (profiles (apply_wallet_op u d (Monthly_grant priceId invoice_id)) u)
              = Some (snd config)
          \<and> map_option topup_credits
              (profiles (apply_wallet_op u d (Monthly_grant priceId invoice_id)) u)
              = map_option topup_credits (profiles d u))
       \<and> ((\<forall>op \<in> set ops. \<not> is_monthly_grant op)
            \<and> get_available_credits d u = Some (ledger_sum d u)
            \<and> ledger_sum d u + 100 * int (length ops) \<le> 2147483647
          \<longrightarrow> get_available_credits (run_wallet_ops u d ops) u
                = Some (ledger_sum (run_wallet_ops u d ops) u)
            \<and> replay_ok u d ops)"
proof -
  from assms obtain p where p: "profiles d u = Some p"
    by (auto simp: wallet_nonneg_def split: option.splits)
  have m: "PLAN_CREDITS priceId = Some config \<and> u \<noteq> [] \<longrightarrow>
            map_option monthly_credits
              (profiles (apply_wallet_op u d (Monthly_grant priceId invoice_id)) u)
              = Some (snd config)
          \<and> map_option topup_credits
              (profiles (apply_wallet_op u d (Monthly_grant priceId invoice_id)) u)
              = map_option topup_credits (profiles d u)"
    using p by (simp add: invoice_payment_succeeded_def update_profile_def truthy_def Let_def)
  from assms replay_ok_run [of d u ops] run_wallet_ops_nonneg [of d u ops] m
  show ?thesis by (auto simp: consistent_def)
qed

text \<open>A top-up of 10 followed by a charge of 3, from an empty wallet.\<close>

theorem ledger_replay_charges_topups_witness:
  "wallet_nonneg (wallet_db 0 0 0) ''u1''
   \<and> get_available_credits (run_wallet_ops ''u1'' (wallet_db 0 0 0)
        [Topup ''price_topup_10'' ''pi_1'', Charge 3]) ''u1'' = Some 7
   \<and> ledger_sum (run_wallet_ops ''u1'' (wallet_db 0 0 0)
        [Topup ''price_topup_10'' ''pi_1'', Charge 3]) ''u1'' = 7
   \<and> map balance_after (credit_transactions (run_wallet_ops ''u1'' (wallet_db 0 0 0)
        [Topup ''price_topup_10'' ''pi_1'', Charge 3])) = [10, 7]
   \<and> replay_ok ''u1'' (wallet_db 0 0 0) [Topup ''price_topup_10'' ''pi_1'', Charge 3]
   \<and> map_option monthly_credits (profiles (apply_wallet_op ''u1'' (wallet_db 0 0 0)
        (Monthly_grant ''price_starter'' ''in_1'')) ''u1'') = Some 20"
proof -
  let ?ops = "[Topup ''price_topup_10'' ''pi_1'', Charge 3]"
  let ?d = "run_wallet_ops ''u1'' (wallet_db 0 0 0) ?ops"
  have n: "wallet_nonneg (wallet_db 0 0 0) ''u1''"
    by (simp add: wallet_nonneg_def wallet_db_def empty_db_def)
  have h: "(\<forall>op \<in> set ?ops. \<not> is_monthly_grant op)
         \<and> get_available_credits (wallet_db 0 0 0) ''u1'' = Some (ledger_sum (wallet_db 0 0 0) ''u1'')
         \<and> ledger_sum (wallet_db 0 0 0) ''u1'' + 100 * int (length ?ops) \<le> 2147483647"
    by (simp add: get_available_credits_def ledger_sum_def wallet_db_def empty_db_def)
  have l: "map balance_after (credit_transactions ?d) = [10, 7] \<and> ledger_sum ?d ''u1'' = 7"
    by (simp add: run_wallet_ops_def checkout_session_completed_def TOPUP_CREDITS_def truthy_def
        update_profile_def insert_credit_transaction_def insert_notification_def
        rpc_deduct_credits_def deduct_credits_def Let_def int4_def wallet_db_def empty_db_def
        ledger_sum_def)
  have c: "PLAN_CREDITS ''price_starter'' = Some (''starter'', 20) \<and> ''u1'' \<noteq> []"
    by (simp add: PLAN_CREDITS_def)
  from ledger_replay_charges_topups
         [OF n, where priceId = "''price_starter''" and config = "(''starter'', 20)"
            and invoice_id = "''in_1''" and ops = ?ops] h c
  have "get_available_credits ?d ''u1'' = Some (ledger_sum ?d ''u1'')
      \<and> replay_ok ''u1'' (wallet_db 0 0 0) ?ops
      \<and> map_option monthly_credits (profiles (apply_wallet_op ''u1'' (wallet_db 0 0 0)
            (Monthly_grant ''price_starter'' ''in_1'')) ''u1'') = Some (snd (''starter'', 20 :: int))"
    by blast
  with n l show ?thesis by simp
qed

section \<open>Batch status synchronisation\<close>

text \<open>
  C5. For every update of an item's row that succeeds: when it takes the item from a
  non-terminal status into completed or failed, the counter of the batch that matches
  the new status, and only that one, grows by one, and the batch becomes completed with
  completed_at stamped exactly when completed_count + failed_count (after the increment)
  equals total_images, its status and completed_at staying as they were otherwise; when
  the item was already terminal, the batch table is left as it was.
\<close>

theorem sync_job_completion_counts:
  assumes "jobs (job_id OLD) = Some j"
    and "update_image_row now u OLD jobs = Inr (NEW, jobs')"
  shows "(terminal (image_status NEW) \<and> \<not> terminal (image_status OLD) \<longrightarrow>
           jobs' = jobs(job_id OLD \<mapsto>
             j\<lparr>completed_count := completed_count j + (if image_status NEW = completed then 1 else 0),
               failed_count := failed_count j + (if image_status NEW = failed then 1 else 0),
               job_status := (if completed_count j + failed_count j + 1 = total_images j
                              then completed else job_status j),
               completed_at := (if completed_count j + failed_count j + 1 = total_images j
                                then Some now else completed_at j)\<rparr>))
       \<and> (terminal (image_status OLD) \<longrightarrow> jobs' = jobs)
       \<and> NEW = apply_image_update u OLD"
  using assms
  by (cases u)
     (auto simp: update_image_row_def sync_job_completion_def terminal_def Let_def
           split: if_splits sum.splits)

text \<open>
  The last item of a batch of one fails; and a completed item is updated again.
\<close>

theorem sync_job_completion_counts_witness:
  "update_image_row 700 (Set_failed ''boom'')
     (image1\<lparr>image_status := processing, progress_pct := 75\<rparr>)
     [''j1'' \<mapsto> job1\<lparr>completed_count := 0, job_status := processing, completed_at := None\<rparr>]
   = Inr (image1\<lparr>image_status := failed, progress_pct := 75,
                  image_error_message := Some ''boom''\<rparr>,
          [''j1'' \<mapsto> job1\<lparr>completed_count := 0, failed_count := 1, job_status := completed,
                          completed_at := Some 700\<rparr>])
   \<and> update_image_row 700 (Set_failed ''boom'') image1 [''j1'' \<mapsto> job1]
   = Inr (image1\<lparr>image_status := failed, image_error_message := Some ''boom''\<rparr>,
          [''j1'' \<mapsto> job1])"
proof -
  let ?old = "image1\<lparr>image_status := processing, progress_pct := 75\<rparr>"
  let ?j = "job1\<lparr>completed_count := 0, job_status := processing, completed_at := None\<rparr>"
  let ?new = "image1\<lparr>image_status := failed, progress_pct := 75,
                image_error_message := Some ''boom''\<rparr>"
  have j: "[''j1'' \<mapsto> ?j] (job_id ?old) = Some ?j" "[''j1'' \<mapsto> job1] (job_id image1) = Some job1"
    by (simp_all add: image1_def)
  obtain jobs' where e1: "update_image_row 700 (Set_failed ''boom'') ?old [''j1'' \<mapsto> ?j]
      = Inr (?new, jobs')"
    by (simp add: update_image_row_def sync_job_completion_def terminal_def int4_def
          image1_def job1_def Let_def)
  obtain jobs'' where e2: "update_image_row 700 (Set_failed ''boom'') image1 [''j1'' \<mapsto> job1]
      = Inr (image1\<lparr>image_status := failed, image_error_message := Some ''boom''\<rparr>, jobs'')"
    by (simp add: update_image_row_def terminal_def image1_def Let_def)
  from sync_job_completion_counts [OF j(1) e1]
  have "jobs' = [''j1'' \<mapsto> job1\<lparr>completed_count := 0, failed_count := 1,
      job_status := completed, completed_at := Some 700\<rparr>]"
    by (simp add: terminal_def image1_def job1_def)
  moreover from sync_job_completion_counts [OF j(2) e2]
  have "jobs'' = [''j1'' \<mapsto> job1]"
    by (simp add: terminal_def image1_def)
  ultimately show ?thesis using e1 e2 by simp
qed

section \<open>Re-invoking the worker\<close>

lemma processImage_job_status [simp]:
  "processImage env img jid (j\<lparr>job_status := s\<rparr>) = processImage env img jid j"
  by (simp add: processImage_def cong: submit_response.case_cong sum.case_cong
        output_response.case_cong option.case_cong)

lemma run_processImage_job_status [simp]:
  "run_processImage env jid (j\<lparr>job_status := s\<rparr>) = run_processImage env jid j"
  by (simp add: fun_eq_iff run_processImage_def)

text \<open>
  C2, amended. The worker never looks at the batch's status: for an existing batch and
  an authorised call, the result is the same whatever the status is, terminal or not.
  The batch is set to processing and started_at is stamped again; with no items it then
  ends failed with the error "No images found", and otherwise every item is processed
  again.
\<close>

theorem worker_ignores_job_status:
  assumes "secret = Some (WORKER_SECRET env)" and "jid \<noteq> []"
    and "processing_jobs d jid = Some j"
  shows "worker_POST env secret (Some jid)
           (d\<lparr>processing_jobs := (processing_jobs d)(jid \<mapsto> j\<lparr>job_status := s\<rparr>)\<rparr>)
         = worker_POST env secret (Some jid) d
       \<and> (filter (\<lambda>r. job_id r = jid) (processed_images d) = [] \<longrightarrow>
            worker_POST env secret (Some jid) d =
              (No_images,
               d\<lparr>processing_jobs := (processing_jobs d)(jid \<mapsto>
                    j\<lparr>started_at := Some (we_now env), job_status := failed,
                      job_error_message := Some ''No images found''\<rparr>)\<rparr>))"
  using assms
  by (simp add: worker_POST_def update_job_def truthy_def Let_def)

text \<open>
  C2 as stated fails: the worker called again on a completed batch of one completed
  image sets the batch back to processing, processes the image again (the storage
  refuses to overwrite the output, so the image ends failed at progress 75), and counts
  it a second time: failed_count becomes 1 next to completed_count 1 of total_images 1.
\<close>

theorem worker_rerun_counterexample:
  "processing_jobs completed_db ''j1'' = Some job1
   \<and> job_status job1 = completed
   \<and> fst (worker_POST worker_env1 (Some ''s3cret'') (Some ''j1'') completed_db) = Worker_ok 1 1
   \<and> processing_jobs (snd (worker_POST worker_env1 (Some ''s3cret'') (Some ''j1'') completed_db))
        ''j1''
      = Some (job1\<lparr>job_status := processing, started_at := Some 500, failed_count := 1\<rparr>)
   \<and> map image_status (processed_images
        (snd (worker_POST worker_env1 (Some ''s3cret'') (Some ''j1'') completed_db))) = [failed]
   \<and> map progress_pct (processed_images
        (snd (worker_POST worker_env1 (Some ''s3cret'') (Some ''j1'') completed_db))) = [75]"
  by (simp add: worker_POST_def update_job_def truthy_def Let_def completed_db_def wallet_db_def
        empty_db_def job1_def image1_def worker_env1_def run_processImage_def
        processImage_def pollNanoBanana_def maxAttempts_default_def
        pollNanoBanana_from.simps poll_progress_def reported_or_fallback_def
        Math_round_def image_env_ok_def answer_def db_update_image_def update_image_row_def
        sync_job_completion_def terminal_def int4_def insert_notification_def)

text \<open>A completed batch without items, and the same batch in status queued.\<close>

theorem worker_ignores_job_status_witness:
  "worker_POST worker_env1 (Some ''s3cret'') (Some ''j1'') (completed_db\<lparr>processed_images := []\<rparr>)
   = (No_images,
      completed_db\<lparr>processed_images := [],
        processing_jobs := [''j1'' \<mapsto> job1\<lparr>started_at := Some 500, job_status := failed,
                                       job_error_message := Some ''No images found''\<rparr>]\<rparr>)
   \<and> worker_POST worker_env1 (Some ''s3cret'') (Some ''j1'')
        (completed_db\<lparr>processed_images := [],
           processing_jobs := [''j1'' \<mapsto> job1\<lparr>job_status := queued\<rparr>]\<rparr>)
   = worker_POST worker_env1 (Some ''s3cret'') (Some ''j1'') (completed_db\<lparr>processed_images := []\<rparr>)"
proof -
  let ?d = "completed_db\<lparr>processed_images := []\<rparr>"
  have h: "Some ''s3cret'' = Some (WORKER_SECRET worker_env1)" "''j1'' \<noteq> []"
    "processing_jobs ?d ''j1'' = Some job1"
    by (simp_all add: worker_env1_def completed_db_def)
  have i: "filter (\<lambda>r. job_id r = ''j1'') (processed_images ?d) = []" by simp
  have u: "processing_jobs ?d = [''j1'' \<mapsto> job1]" "we_now worker_env1 = 500"
    by (simp_all add: completed_db_def worker_env1_def)
  from worker_ignores_job_status [OF h, of queued] i u show ?thesis
    by (simp add: completed_db_def)
qed

section \<open>Polling: timeout and progress\<close>















section \<open>Bundle: items left out of the archive\<close>









end
